theory Spec2Isabelle
  imports Complex_Main
begin

section \<open>The grid-model adapter (services/opendss\_service.py)\<close>

text \<open>
  Python floats are modelled by \<^typ>\<open>real\<close>: the claims about them are algebraic and
  the differences they expose are far larger than any rounding. Dictionaries whose
  iteration order is read (\<open>loads.values()\<close>) are association lists in insertion order.
\<close>

record load_data =
  load_name :: string
  load_bus :: string
  kw :: real
  kvar :: real
  load_voltage_pu :: real

record generator_data =
  gen_name :: string
  gen_bus :: string
  gen_kw :: real
  gen_kvar :: real
  gen_type :: string

text \<open>
  \<open>GridState\<close>. The per-bus, per-line and per-transformer dictionaries are carried
  by the source but read by no operation modelled here; they are left out.
\<close>

record grid_state =
  timestamp :: real
  converged :: bool
  total_power_kw :: real
  total_power_kvar :: real
  total_losses_kw :: real
  total_generation_kw :: real
  total_solar_kw :: real
  total_load_kw :: real
  loads :: "(string \<times> load_data) list"
  generators :: "(string \<times> generator_data) list"
  voltage_violations :: "string list"
  overloaded_elements :: "string list"

text \<open>\<open>OpenDSSService.__init__\<close>: the fields of the adapter object itself.\<close>

record adapter =
  model_loaded :: bool
  circuit_name :: string
  current_load_mult :: real

definition init_adapter :: adapter where
  "init_adapter = \<lparr>model_loaded = False, circuit_name = [], current_load_mult = 1\<rparr>"

text \<open>
  What the external solver reports when asked; the solver is an opaque collaborator, so
  its answers are inputs of the model. \<open>dss_loads\<close> is the sequence that
  \<open>Loads.First()/Next()\<close> walks: name, bus, nominal kW, nominal kvar, bus voltage.
\<close>

record circuit =
  dss_error_description :: string
  dss_circuit_name :: string
  dss_converged :: bool
  dss_total_power :: "real \<times> real"
  dss_losses :: real
  dss_loads :: "(string \<times> string \<times> real \<times> real \<times> real) list"
  dss_generators :: "(string \<times> generator_data) list"
  dss_voltage_violations :: "string list"
  dss_overloads :: "string list"

datatype reply = Success string | Failure string

fun is_success :: "reply \<Rightarrow> bool" where
  "is_success (Success _) = True"
| "is_success (Failure _) = False"

text \<open>
  \<open>load_model\<close>: compile, raise on a reported error or an empty circuit name; the
  handler of the \<open>try\<close> clears \<open>_model_loaded\<close> and returns the failure.
\<close>

definition load_model :: "circuit \<Rightarrow> adapter \<Rightarrow> reply \<times> adapter" where
  "load_model c d =
     (if dss_error_description c \<noteq> [] then
        (Failure (dss_error_description c), d\<lparr>model_loaded := False\<rparr>)
      else if dss_circuit_name c = [] then
        (Failure ''Failed to load circuit - no circuit name found'', d\<lparr>model_loaded := False\<rparr>)
      else
        (Success (dss_circuit_name c),
         d\<lparr>circuit_name := dss_circuit_name c, model_loaded := True\<rparr>))"

text \<open>A Python \<open>dict\<close> assignment \<open>d[k] = v\<close>: an existing key keeps its position.\<close>

fun dict_set :: "'k \<Rightarrow> 'v \<Rightarrow> ('k \<times> 'v) list \<Rightarrow> ('k \<times> 'v) list" where
  "dict_set k v [] = [(k, v)]"
| "dict_set k v ((k', v') # kvs) =
     (if k' = k then (k, v) # kvs else (k', v') # dict_set k v kvs)"

definition dict_values :: "('k \<times> 'v) list \<Rightarrow> 'v list" where
  "dict_values kvs = map snd kvs"

text \<open>
  \<open>_get_all_loads\<close>: every entry's \<open>kw\<close> and \<open>kvar\<close> are the solver's nominal
  values times \<open>_current_load_mult\<close>.
\<close>

fun get_all_loads_from ::
  "real \<Rightarrow> (string \<times> string \<times> real \<times> real \<times> real) list \<Rightarrow> (string \<times> load_data) list
   \<Rightarrow> (string \<times> load_data) list" where
  "get_all_loads_from m [] acc = acc"
| "get_all_loads_from m ((name, bus, p, q, v) # rest) acc =
     get_all_loads_from m rest
       (dict_set name
          \<lparr>load_name = name, load_bus = bus, kw = p * m, kvar = q * m, load_voltage_pu = v\<rparr>
          acc)"

definition get_all_loads :: "circuit \<Rightarrow> adapter \<Rightarrow> (string \<times> load_data) list" where
  "get_all_loads c d = get_all_loads_from (current_load_mult d) (dss_loads c) []"

text \<open>Python's \<open>sum(...)\<close>: a left fold from 0.\<close>

definition py_sum :: "real list \<Rightarrow> real" where
  "py_sum xs = foldl (+) 0 xs"

datatype exn =
  RuntimeError string | AttributeError string | JSONDecodeError | OverflowError string
  | WebSocketDisconnect | OtherException string

text \<open>\<open>str(e)\<close>.\<close>

fun exn_str :: "exn \<Rightarrow> string" where
  "exn_str (RuntimeError m) = m"
| "exn_str (AttributeError m) = m"
| "exn_str JSONDecodeError = ''Invalid JSON''"
| "exn_str (OverflowError m) = m"
| "exn_str WebSocketDisconnect = []"
| "exn_str (OtherException m) = m"

text \<open>
  \<open>get_grid_state\<close> (solves, then extracts). The load total is the sum of the entries'
  \<open>kw\<close> multiplied by \<open>_current_load_mult\<close>.
\<close>

definition get_grid_state :: "circuit \<Rightarrow> adapter \<Rightarrow> exn + grid_state" where
  "get_grid_state c d =
     (if \<not> model_loaded d then Inl (RuntimeError ''Model not loaded. Call load_model() first.'')
      else
        let ls = get_all_loads c d;
            gs = dss_generators c;
            nominal_load = py_sum (map kw (dict_values ls))
        in Inr \<lparr>timestamp = 0, converged = dss_converged c,
                 total_power_kw = - fst (dss_total_power c),
                 total_power_kvar = - snd (dss_total_power c),
                 total_losses_kw = dss_losses c / 1000,
                 total_generation_kw = py_sum (map gen_kw (dict_values gs)),
                 total_solar_kw =
                   py_sum (map gen_kw (filter (\<lambda>g. gen_type g = ''pvsystem'') (dict_values gs))),
                 total_load_kw = nominal_load * current_load_mult d,
                 loads = ls, generators = gs,
                 voltage_violations = dss_voltage_violations c,
                 overloaded_elements = dss_overloads c\<rparr>)"

text \<open>\<open>read_current_state\<close> (no solve): the load total is the plain sum.\<close>

definition read_current_state :: "circuit \<Rightarrow> adapter \<Rightarrow> exn + grid_state" where
  "read_current_state c d =
     (if \<not> model_loaded d then Inl (RuntimeError ''Model not loaded. Call load_model() first.'')
      else
        let ls = get_all_loads c d;
            gs = dss_generators c
        in Inr \<lparr>timestamp = 0, converged = dss_converged c,
                 total_power_kw = - fst (dss_total_power c),
                 total_power_kvar = - snd (dss_total_power c),
                 total_losses_kw = dss_losses c / 1000,
                 total_generation_kw = py_sum (map gen_kw (dict_values gs)),
                 total_solar_kw =
                   py_sum (map gen_kw (filter (\<lambda>g. gen_type g = ''pvsystem'') (dict_values gs))),
                 total_load_kw = py_sum (map kw (dict_values ls)),
                 loads = ls, generators = gs,
                 voltage_violations = dss_voltage_violations c,
                 overloaded_elements = dss_overloads c\<rparr>)"

definition set_load_multiplier :: "real \<Rightarrow> adapter \<Rightarrow> exn + adapter" where
  "set_load_multiplier multiplier d =
     (if \<not> model_loaded d then Inl (RuntimeError ''Model not loaded.'')
      else Inr (d\<lparr>current_load_mult := multiplier\<rparr>))"

section \<open>The real-time engine (services/simulation\_service.py)\<close>

text \<open>
  A subscriber is a callable. The two kinds the program creates are the per-connection
  closure of the hub (\<open>_create_broadcast_callback\<close>, one per websocket) and any other
  callable handed to \<open>subscribe\<close>.
\<close>

datatype callback = HubCallback nat | RawCallback nat

datatype loop = SimulationLoop int | RealDataLoop int

record summary =
  h_timestamp :: real
  h_total_power_kw :: real
  h_total_load_kw :: real
  h_total_generation_kw :: real
  h_total_losses_kw :: real
  h_converged :: bool
  h_num_violations :: nat

record engine =
  running :: bool
  paused :: bool
  current_state :: "grid_state option"
  simulation_speed :: real
  subscribers :: "callback list"
  simulation_task_handle :: "loop option"
  history :: "summary list"
  max_history_length :: nat
  current_hour :: real
  step_minutes :: nat
  engine_mode :: string

definition init_engine :: engine where
  "init_engine =
     \<lparr>running = False, paused = False, current_state = None, simulation_speed = 1,
      subscribers = [], simulation_task_handle = None, history = [],
      max_history_length = 1000, current_hour = 0, step_minutes = 15,
      engine_mode = ''synthetic''\<rparr>"

definition summary_of :: "grid_state \<Rightarrow> summary" where
  "summary_of s =
     \<lparr>h_timestamp = timestamp s, h_total_power_kw = total_power_kw s,
      h_total_load_kw = total_load_kw s, h_total_generation_kw = total_generation_kw s,
      h_total_losses_kw = total_losses_kw s, h_converged = converged s,
      h_num_violations = length (voltage_violations s)\<rparr>"

text \<open>\<open>_add_to_history\<close>: append, then \<open>pop(0)\<close> when the list is over the limit.\<close>

definition add_to_history :: "grid_state \<Rightarrow> engine \<Rightarrow> engine" where
  "add_to_history s e =
     (let h = history e @ [summary_of s]
      in e\<lparr>history := (if length h > max_history_length e then tl h else h)\<rparr>)"

definition pause :: "engine \<Rightarrow> reply \<times> engine" where
  "pause e =
     (if \<not> running e then (Failure ''Simulation not running'', e)
      else (Success ''Simulation paused'', e\<lparr>paused := True\<rparr>))"

definition resume :: "engine \<Rightarrow> reply \<times> engine" where
  "resume e =
     (if \<not> running e then (Failure ''Simulation not running'', e)
      else (Success ''Simulation resumed'', e\<lparr>paused := False\<rparr>))"

definition set_speed :: "real \<Rightarrow> engine \<Rightarrow> reply \<times> engine" where
  "set_speed speed e =
     (if speed \<le> 0 then (Failure ''Speed must be positive'', e)
      else (Success ''speed'', e\<lparr>simulation_speed := speed\<rparr>))"

text \<open>
  A Python slice \<open>xs[start:]\<close> with an integer start: a negative start counts from the
  end and is clipped at 0, a start beyond the end gives the empty list.
\<close>

definition slice_from :: "int \<Rightarrow> 'a list \<Rightarrow> 'a list" where
  "slice_from start xs =
     (let n = int (length xs);
          s = (if start < 0 then max (start + n) 0 else min start n)
      in drop (nat s) xs)"

text \<open>\<open>get_history\<close>: \<open>self._history[-limit:]\<close>.\<close>

definition get_history :: "int \<Rightarrow> engine \<Rightarrow> summary list" where
  "get_history limit e = slice_from (- limit) (history e)"

text \<open>
  \<open>start\<close>. The model is loaded first when it is not; the only guard after that is the
  engine's own \<open>_running\<close> flag. The success message's interpolated numbers are
  not modelled.
\<close>

definition start ::
  "circuit \<Rightarrow> int \<Rightarrow> real \<Rightarrow> string \<Rightarrow> engine \<times> adapter \<Rightarrow> reply \<times> engine \<times> adapter" where
  "start c hours speed mode ed =
     (let (e, d) = ed;
          (loaded, d') = (if \<not> model_loaded d then load_model c d else (Success [], d))
      in if \<not> is_success loaded then (Failure ''Failed to load model'', e, d')
         else if running e then (Failure ''Simulation already running'', e, d')
         else
           (Success ''Simulation started'',
            e\<lparr>running := True, paused := False, simulation_speed := speed,
              current_hour := 0, engine_mode := mode, history := [],
              simulation_task_handle :=
                Some (if mode = ''real_data'' then RealDataLoop hours else SimulationLoop hours)\<rparr>,
            d'))"

text \<open>
  \<open>stop\<close>: clears both flags and cancels the loop; the loop's \<open>finally\<close> clears the
  same fields again.
\<close>

definition stop :: "engine \<Rightarrow> reply \<times> engine" where
  "stop e =
     (Success ''Simulation stopped'',
      e\<lparr>running := False, paused := False, simulation_task_handle := None\<rparr>)"

section \<open>Subscriber fan-out (simulation\_service.py, api/websockets/handlers.py)\<close>

text \<open>
  \<open>_subscribers\<close> and \<open>active_connections\<close> are Python sets; they are kept as
  duplicate-free lists so that the iteration over \<open>list(...)\<close> can be written down.
\<close>

definition set_add :: "'a \<Rightarrow> 'a list \<Rightarrow> 'a list" where
  "set_add x xs = (if x \<in> set xs then xs else xs @ [x])"

definition set_discard :: "'a \<Rightarrow> 'a list \<Rightarrow> 'a list" where
  "set_discard x xs = removeAll x xs"

definition subscribe :: "callback \<Rightarrow> engine \<Rightarrow> engine" where
  "subscribe cb e = e\<lparr>subscribers := set_add cb (subscribers e)\<rparr>"

definition unsubscribe :: "callback \<Rightarrow> engine \<Rightarrow> engine" where
  "unsubscribe cb e = e\<lparr>subscribers := set_discard cb (subscribers e)\<rparr>"

text \<open>
  The network: \<open>send_fails ws\<close> says that \<open>send_json\<close> on websocket \<open>ws\<close> raises,
  \<open>raw_raises k\<close> that the callable \<open>k\<close> raises.
\<close>

record network =
  send_fails :: "nat \<Rightarrow> bool"
  raw_raises :: "nat \<Rightarrow> bool"

text \<open>
  Calling a subscriber. The hub's closure wraps its \<open>send_json\<close> in
  \<open>try/except Exception\<close> and only logs, so it never raises to its caller.
\<close>

fun callback_raises :: "network \<Rightarrow> callback \<Rightarrow> bool" where
  "callback_raises net (HubCallback ws) = False"
| "callback_raises net (RawCallback k) = raw_raises net k"


text \<open>
  \<open>_broadcast_state\<close>: iterate over a copy of the set; a callback that raises is
  discarded from the live set at once.
\<close>

fun broadcast_loop :: "network \<Rightarrow> callback list \<Rightarrow> callback list \<Rightarrow> callback list" where
  "broadcast_loop net [] subs = subs"
| "broadcast_loop net (cb # rest) subs =
     broadcast_loop net rest (if callback_raises net cb then set_discard cb subs else subs)"

definition broadcast_state :: "network \<Rightarrow> engine \<Rightarrow> engine" where
  "broadcast_state net e = e\<lparr>subscribers := broadcast_loop net (subscribers e) (subscribers e)\<rparr>"


record hub =
  active_connections :: "nat list"
  callbacks :: "nat \<rightharpoonup> callback"

definition init_hub :: hub where
  "init_hub = \<lparr>active_connections = [], callbacks = Map.empty\<rparr>"

definition connect :: "nat \<Rightarrow> hub \<times> engine \<Rightarrow> hub \<times> engine" where
  "connect ws he =
     (let (h, e) = he; cb = HubCallback ws
      in (h\<lparr>active_connections := set_add ws (active_connections h),
            callbacks := (callbacks h)(ws \<mapsto> cb)\<rparr>,
          subscribe cb e))"

definition disconnect :: "nat \<Rightarrow> hub \<times> engine \<Rightarrow> hub \<times> engine" where
  "disconnect ws he =
     (let (h, e) = he; h' = h\<lparr>active_connections := set_discard ws (active_connections h)\<rparr>
      in case callbacks h ws of
           None \<Rightarrow> (h', e)
         | Some cb \<Rightarrow> (h'\<lparr>callbacks := (callbacks h)(ws := None)\<rparr>, unsubscribe cb e))"


section \<open>Engine steps\<close>

text \<open>\<open>hour % 24\<close> on floats.\<close>

definition hour_of_day :: "real \<Rightarrow> real" where
  "hour_of_day h = h - 24 * of_int \<lfloor>h / 24\<rfloor>"

text \<open>
  \<open>_get_load_profile\<close>; \<open>jitter\<close> is the value drawn by
  \<open>random.uniform(-0.03, 0.03)\<close>.
\<close>

definition get_load_profile :: "real \<Rightarrow> real \<Rightarrow> real" where
  "get_load_profile hour jitter =
     (let base = (if 18 \<le> hour \<and> hour < 22 then 1
                  else if 6 \<le> hour \<and> hour < 18 then 0.7 + 0.2 * (hour - 6) / 12
                  else if 22 \<le> hour \<or> hour < 6 then 0.5
                  else 0.7)
      in base * (1 + jitter))"

text \<open>
  \<open>step\<close>: load the model if need be, set the load multiplier from the profile, solve
  and extract with \<open>get_grid_state\<close>, stamp, record, fan out, advance the clock. A turn
  of \<open>_simulation_loop\<close> performs the same sequence from the multiplier on. (The solar
  multiplier only changes what the solver returns, which is the input \<open>c\<close>.)
\<close>

definition step ::
  "circuit \<Rightarrow> real \<Rightarrow> network \<Rightarrow> engine \<times> adapter \<Rightarrow> (exn + reply) \<times> engine \<times> adapter" where
  "step c jitter net ed =
     (let (e, d) = ed;
          (loaded, d1) = (if \<not> model_loaded d then load_model c d else (Success [], d))
      in if \<not> is_success loaded then (Inr (Failure ''Failed to load model''), e, d1)
         else
           case set_load_multiplier (get_load_profile (hour_of_day (current_hour e)) jitter) d1 of
             Inl x \<Rightarrow> (Inl x, e, d1)
           | Inr d2 \<Rightarrow>
               (case get_grid_state c d2 of
                  Inl x \<Rightarrow> (Inl x, e, d2)
                | Inr st \<Rightarrow>
                    let st' = st\<lparr>timestamp := current_hour e\<rparr>;
                        e1 = add_to_history st' (e\<lparr>current_state := Some st'\<rparr>);
                        e2 = broadcast_state net e1
                    in (Inr (Success ''state''),
                        e2\<lparr>current_hour := current_hour e2 + real (step_minutes e2) / 60\<rparr>,
                        d2)))"

text \<open>
  One turn of \<open>_real_data_simulation_loop\<close> that is neither stopped nor paused: solve,
  build the state directly (without \<open>get_grid_state\<close>), record, fan out, advance.
\<close>

definition real_data_turn :: "circuit \<Rightarrow> network \<Rightarrow> engine \<times> adapter \<Rightarrow> engine \<times> adapter" where
  "real_data_turn c net ed =
     (let (e, d) = ed;
          ls = get_all_loads c d;
          gs = dss_generators c;
          st = \<lparr>timestamp = current_hour e, converged = dss_converged c,
                total_power_kw = - fst (dss_total_power c),
                total_power_kvar = - snd (dss_total_power c),
                total_losses_kw = dss_losses c / 1000,
                total_generation_kw = py_sum (map gen_kw (dict_values gs)),
                total_solar_kw =
                  py_sum (map gen_kw (filter (\<lambda>g. gen_type g = ''pvsystem'') (dict_values gs))),
                total_load_kw = py_sum (map kw (dict_values ls)),
                loads = ls, generators = gs,
                voltage_violations = dss_voltage_violations c,
                overloaded_elements = dss_overloads c\<rparr>;
          e1 = add_to_history st (e\<lparr>current_state := Some st\<rparr>);
          e2 = broadcast_state net e1
      in (e2\<lparr>current_hour := current_hour e2 + real (step_minutes e2) / 60\<rparr>, d))"

section \<open>The batch orchestrator (services/pipeline\_service.py)\<close>

text \<open>
  A date is the proleptic Gregorian ordinal (\<open>toordinal()\<close>) of the \<open>datetime\<close> that
  \<open>strptime\<close> yields for a well-formed \<open>YYYY-MM-DD\<close> string: 0001-01-01 is 1,
  2025-08-01 is 739464, and the last value a \<open>datetime\<close> can hold, 9999-12-31, is
  3652059. \<open>current += timedelta(days=1)\<close> adds 1 and raises \<open>OverflowError\<close>
  beyond that.
\<close>

definition max_ordinal :: int where
  "max_ordinal = 3652059"

definition add_one_day :: "int \<Rightarrow> exn + int" where
  "add_one_day d =
     (if d + 1 > max_ordinal then Inl (OverflowError ''date value out of range'')
      else Inr (d + 1))"

datatype day_result =
  DaySuccess int nat nat
  | DayError int string

record simulation_task =
  task_id :: string
  status :: string
  mode :: string
  start_date :: int
  end_date :: int
  total_days :: int
  current_day :: int
  current_date :: "int option"
  completed_days :: "day_result list"
  error :: "string option"

text \<open>
  What the collaborators do for a given date: whether the data preparation raises,
  whether \<open>ClearAll\<close>, \<open>DataPath\<close> or the \<open>Compile\<close> command itself raises, what
  \<open>dss.Error.Description()\<close> holds when \<open>Compile\<close> has returned, whether the solve
  loop raises, and \<open>Converged()\<close> after each of the steps.
\<close>

record day_env =
  prepare_error :: "int \<Rightarrow> string option"
  compile_raises :: "int \<Rightarrow> string option"
  compile_error :: "int \<Rightarrow> string"
  solve_error :: "int \<Rightarrow> string option"
  solve_converged :: "int \<Rightarrow> nat \<Rightarrow> bool"

definition prepare_date :: "day_env \<Rightarrow> int \<Rightarrow> exn + unit" where
  "prepare_date env d =
     (case prepare_error env d of Some m \<Rightarrow> Inl (OtherException m) | None \<Rightarrow> Inr ())"

text \<open>
  \<open>_run_simulation\<close>: recompile (the commands may raise by themselves), raise
  \<open>RuntimeError\<close> when \<open>Compile\<close> has returned and left an error description, then
  96 steps. Of each step's record only the index and the convergence flag are kept. (The
  two assignments to the adapter object's \<open>_model_loaded\<close> and \<open>_circuit_name\<close> are not
  part of the orchestrator's state.)
\<close>

definition run_simulation :: "day_env \<Rightarrow> int \<Rightarrow> exn + (nat \<times> bool) list" where
  "run_simulation env d =
     (case compile_raises env d of
        Some m \<Rightarrow> Inl (OtherException m)
      | None \<Rightarrow>
          (if compile_error env d \<noteq> [] then
             Inl (RuntimeError (''DSS compile error: '' @ compile_error env d))
           else
             (case solve_error env d of
                Some m' \<Rightarrow> Inl (OtherException m')
              | None \<Rightarrow> Inr (map (\<lambda>i. (i, solve_converged env d i)) [0..<96]))))"

definition summarize_day :: "int \<Rightarrow> (nat \<times> bool) list \<Rightarrow> day_result" where
  "summarize_day d steps = DaySuccess d (length (filter snd steps)) 96"

definition sync_work :: "day_env \<Rightarrow> int \<Rightarrow> exn + day_result" where
  "sync_work env d =
     (case prepare_date env d of
        Inl x \<Rightarrow> Inl x
      | Inr _ \<Rightarrow>
          (case run_simulation env d of
             Inl x \<Rightarrow> Inl x
           | Inr steps \<Rightarrow> Inr (summarize_day d steps)))"

text \<open>\<open>_run_one_day\<close>: \<open>except Exception\<close> turns every failure into an error record.\<close>

definition run_one_day :: "day_env \<Rightarrow> int \<Rightarrow> day_result" where
  "run_one_day env d =
     (case sync_work env d of Inr r \<Rightarrow> r | Inl x \<Rightarrow> DayError d (exn_str x))"

text \<open>
  Where the background execution \<open>_run_task\<close> of a task is suspended: not yet begun,
  at \<open>await self._run_one_day(...)\<close>, at \<open>await asyncio.sleep(0.1)\<close>, or returned.
  The arguments are the locals \<open>current\<close>, \<open>day_num\<close> and \<open>d_end\<close>.
\<close>

datatype pc = NotStarted | AwaitDay int int int | AwaitSleep int int int | Finished

text \<open>
  The \<open>SimulationTask\<close> objects live in a store; \<open>_tasks\<close> maps identifiers to
  addresses and each background execution holds the address of its task.
\<close>

record pipeline =
  objects :: "nat \<rightharpoonup> simulation_task"
  next_object :: nat
  tasks :: "string \<rightharpoonup> nat"
  running_task_id :: "string option"
  coroutines :: "nat \<rightharpoonup> pc"

definition init_pipeline :: pipeline where
  "init_pipeline =
     \<lparr>objects = Map.empty, next_object = 0, tasks = Map.empty, running_task_id = None,
      coroutines = Map.empty\<rparr>"

definition is_busy :: "pipeline \<Rightarrow> bool" where
  "is_busy p = (running_task_id p \<noteq> None)"

definition get_task :: "string \<Rightarrow> pipeline \<Rightarrow> simulation_task option" where
  "get_task tid p = (case tasks p tid of None \<Rightarrow> None | Some a \<Rightarrow> objects p a)"

text \<open>
  \<open>start_simulation\<close>; \<open>new_id\<close> is the identifier drawn from \<open>uuid4\<close>.
\<close>

definition start_simulation ::
  "string \<Rightarrow> int \<Rightarrow> int option \<Rightarrow> pipeline \<Rightarrow> (exn + string) \<times> pipeline" where
  "start_simulation new_id start_d end_d p =
     (if is_busy p then (Inl (RuntimeError ''A simulation is already running''), p)
      else
        let is_range = (end_d \<noteq> None \<and> end_d \<noteq> Some start_d);
            e = (case end_d of None \<Rightarrow> start_d | Some x \<Rightarrow> x);
            task = \<lparr>task_id = new_id, status = ''pending'',
                    mode = (if is_range then ''range'' else ''single''),
                    start_date = start_d, end_date = e, total_days = e - start_d + 1,
                    current_day = 0, current_date = None, completed_days = [],
                    error = None\<rparr>;
            a = next_object p
        in (Inr new_id,
            p\<lparr>objects := (objects p)(a \<mapsto> task), next_object := a + 1,
              tasks := (tasks p)(new_id \<mapsto> a), running_task_id := Some new_id,
              coroutines := (coroutines p)(a \<mapsto> NotStarted)\<rparr>))"

definition cancel_task :: "string \<Rightarrow> pipeline \<Rightarrow> bool \<times> pipeline" where
  "cancel_task tid p =
     (case tasks p tid of
        None \<Rightarrow> (False, p)
      | Some a \<Rightarrow>
          (case objects p a of
             None \<Rightarrow> (False, p)
           | Some t \<Rightarrow>
               if status t = ''running'' then
                 (True,
                  p\<lparr>objects := (objects p)(a \<mapsto> t\<lparr>status := ''cancelled''\<rparr>),
                    running_task_id := None\<rparr>)
               else (False, p)))"

text \<open>
  Leaving the \<open>while\<close> loop of \<open>_run_task\<close>, by its condition or by \<open>break\<close>:
  \<open>task.status = "completed"\<close>, then the \<open>finally\<close> clears \<open>_running_task_id\<close>.
\<close>

definition finish_task :: "nat \<Rightarrow> simulation_task \<Rightarrow> pipeline \<Rightarrow> pipeline" where
  "finish_task a t p =
     p\<lparr>objects := (objects p)(a \<mapsto> t\<lparr>status := ''completed''\<rparr>),
       running_task_id := None,
       coroutines := (coroutines p)(a \<mapsto> Finished)\<rparr>"

text \<open>
  The \<open>except Exception\<close> branch of \<open>_run_task\<close>: \<open>task.status = "error"\<close>,
  \<open>task.error = str(e)\<close>, then the \<open>finally\<close>.
\<close>

definition fail_task :: "nat \<Rightarrow> simulation_task \<Rightarrow> exn \<Rightarrow> pipeline \<Rightarrow> pipeline" where
  "fail_task a t x p =
     p\<lparr>objects := (objects p)(a \<mapsto> t\<lparr>status := ''error'', error := Some (exn_str x)\<rparr>),
       running_task_id := None,
       coroutines := (coroutines p)(a \<mapsto> Finished)\<rparr>"

text \<open>
  The head of the \<open>while\<close> loop up to the next suspension: the loop condition, the
  cancellation check, and the bookkeeping before \<open>_run_one_day\<close> is awaited.
\<close>

definition loop_head :: "nat \<Rightarrow> int \<Rightarrow> int \<Rightarrow> int \<Rightarrow> pipeline \<Rightarrow> pipeline" where
  "loop_head a cur day_num d_end p =
     (case objects p a of
        None \<Rightarrow> p
      | Some t \<Rightarrow>
          if cur \<le> d_end then
            if status t = ''cancelled'' then finish_task a t p
            else
              p\<lparr>objects :=
                  (objects p)(a \<mapsto> t\<lparr>current_day := day_num + 1, current_date := Some cur\<rparr>),
                coroutines := (coroutines p)(a \<mapsto> AwaitDay cur (day_num + 1) d_end)\<rparr>
          else finish_task a t p)"

text \<open>
  The background execution of the task at address \<open>a\<close> runs from its suspension point
  to the next one (the event loop runs nothing else in between). When the awaited day
  returns, its record is appended and \<open>current\<close> is advanced; that addition is the
  one statement of the \<open>try\<close> block that can raise (the dates were parsed by
  \<open>start_simulation\<close> already and \<open>_run_one_day\<close> catches every exception), and the
  \<open>except\<close> branch then ends the task.
\<close>

definition resume_task :: "day_env \<Rightarrow> nat \<Rightarrow> pipeline \<Rightarrow> pipeline" where
  "resume_task env a p =
     (case (coroutines p a, objects p a) of
        (Some NotStarted, Some t) \<Rightarrow>
          loop_head a (start_date t) 0 (end_date t)
            (p\<lparr>objects := (objects p)(a \<mapsto> t\<lparr>status := ''running''\<rparr>)\<rparr>)
      | (Some (AwaitDay cur day_num d_end), Some t) \<Rightarrow>
          (let t' = t\<lparr>completed_days := completed_days t @ [run_one_day env cur]\<rparr>
           in case add_one_day cur of
                Inl x \<Rightarrow> fail_task a t' x p
              | Inr next_day \<Rightarrow>
                  p\<lparr>objects := (objects p)(a \<mapsto> t'),
                    coroutines := (coroutines p)(a \<mapsto> AwaitSleep next_day day_num d_end)\<rparr>)
      | (Some (AwaitSleep cur day_num d_end), Some t) \<Rightarrow> loop_head a cur day_num d_end p
      | _ \<Rightarrow> p)"

text \<open>The background execution resumed \<open>k\<close> times with nothing else in between.\<close>

fun run_task :: "day_env \<Rightarrow> nat \<Rightarrow> nat \<Rightarrow> pipeline \<Rightarrow> pipeline" where
  "run_task env a 0 p = p"
| "run_task env a (Suc k) p = run_task env a k (resume_task env a p)"

section \<open>The duplex channel (api/websockets/handlers.py)\<close>

datatype json =
  JNull | JBool bool | JNum int | JStr string | JArr "json list" | JObj "(string \<times> json) list"

text \<open>\<open>dict.get\<close> on a decoded object: of duplicate keys the decoder keeps the last.\<close>

definition obj_get :: "(string \<times> json) list \<Rightarrow> string \<Rightarrow> json option" where
  "obj_get kvs k = map_of (rev kvs) k"

datatype server_event =
  Pong | Response string | StateUpdate | InfoEvent string | StatusEvent | HistoryEvent
  | ErrorEvent string

definition known_actions :: "string list" where
  "known_actions =
     [''ping'', ''start'', ''stop'', ''pause'', ''resume'', ''step'', ''set_speed'',
      ''get_state'', ''get_status'', ''get_history'']"

text \<open>
  The first two statements of \<open>handle_client_message\<close>, which stand before its
  \<open>try\<close>: \<open>data.get("action", "").lower()\<close> raises \<open>AttributeError\<close> when \<open>data\<close>
  is not an object or the value under \<open>action\<close> is not a string. Python's
  \<open>str.lower\<close> is the parameter \<open>str_lower\<close>.
\<close>

definition read_action :: "(string \<Rightarrow> string) \<Rightarrow> json \<Rightarrow> exn + string" where
  "read_action str_lower data =
     (case data of
        JObj kvs \<Rightarrow>
          (case obj_get kvs ''action'' of
             None \<Rightarrow> Inr (str_lower [])
           | Some (JStr a) \<Rightarrow> Inr (str_lower a)
           | Some _ \<Rightarrow> Inl (AttributeError ''object has no attribute lower''))
      | _ \<Rightarrow> Inl (AttributeError ''object has no attribute get''))"

definition read_params :: "json \<Rightarrow> json" where
  "read_params data =
     (case data of
        JObj kvs \<Rightarrow> (case obj_get kvs ''params'' of None \<Rightarrow> JObj [] | Some p \<Rightarrow> p)
      | _ \<Rightarrow> JObj [])"

text \<open>
  \<open>handle_client_message\<close>. The body of each known action's branch (the service call
  and the events it sends) is the parameter \<open>branch\<close>; whatever it raises is caught by
  the \<open>except Exception\<close> of the handler and answered with an error event. The
  \<open>else\<close> branch sends the error event for an unknown action. \<open>send_personal\<close>
  never raises.
\<close>

definition handle_client_message ::
  "(string \<Rightarrow> string) \<Rightarrow> (string \<Rightarrow> json \<Rightarrow> 's \<Rightarrow> (exn + server_event list) \<times> 's)
   \<Rightarrow> json \<Rightarrow> 's \<Rightarrow> (exn + server_event list) \<times> 's" where
  "handle_client_message str_lower branch data s =
     (case read_action str_lower data of
        Inl e \<Rightarrow> (Inl e, s)
      | Inr action \<Rightarrow>
          if action \<in> set known_actions then
            (case branch action (read_params data) s of
               (Inl e, s') \<Rightarrow> (Inr [ErrorEvent (exn_str e)], s')
             | (Inr evs, s') \<Rightarrow> (Inr evs, s'))
          else (Inr [ErrorEvent (''Unknown action: '' @ action)], s))"

text \<open>
  What \<open>websocket.receive()\<close> hands to \<open>receive_json\<close>: a text frame, a binary
  frame, or the notice that the peer has gone.
\<close>

datatype frame = TextFrame string | BinaryFrame | CloseFrame

text \<open>
  \<open>receive_json\<close> (of the websocket library, text mode): a disconnect notice raises
  \<open>WebSocketDisconnect\<close>; the text of the frame is handed to \<open>json.loads\<close>, the
  parameter \<open>json_loads\<close>, which returns the value or raises (\<open>JSONDecodeError\<close> for
  text that is not JSON); a binary frame has no text, and reading it raises an exception
  that is not a \<open>JSONDecodeError\<close>.
\<close>

definition receive_json :: "(string \<Rightarrow> exn + json) \<Rightarrow> frame \<Rightarrow> exn + json" where
  "receive_json json_loads f =
     (case f of
        CloseFrame \<Rightarrow> Inl WebSocketDisconnect
      | BinaryFrame \<Rightarrow> Inl (OtherException ''text'')
      | TextFrame txt \<Rightarrow> json_loads txt)"

text \<open>
  One turn of \<open>while True\<close> in \<open>websocket_endpoint\<close>: the events sent to this
  client, whether the loop goes on, and the hub and engine afterwards. Only
  \<open>JSONDecodeError\<close> is caught inside the loop, around both \<open>receive_json\<close> and the
  handler; any other exception reaches the outer handlers (\<open>WebSocketDisconnect\<close>,
  \<open>Exception\<close>), which call \<open>manager.disconnect\<close> and leave the endpoint.
\<close>

definition endpoint_turn ::
  "(string \<Rightarrow> string) \<Rightarrow> (string \<Rightarrow> exn + json)
   \<Rightarrow> (string \<Rightarrow> json \<Rightarrow> hub \<times> engine \<Rightarrow> (exn + server_event list) \<times> hub \<times> engine) \<Rightarrow> nat
   \<Rightarrow> frame \<Rightarrow> hub \<times> engine \<Rightarrow> server_event list \<times> bool \<times> hub \<times> engine" where
  "endpoint_turn str_lower json_loads branch ws f he =
     (case receive_json json_loads f of
        Inl JSONDecodeError \<Rightarrow> ([ErrorEvent ''Invalid JSON message''], True, he)
      | Inl _ \<Rightarrow> ([], False, disconnect ws he)
      | Inr data \<Rightarrow>
          (case handle_client_message str_lower branch data he of
             (Inr evs, he') \<Rightarrow> (evs, True, he')
           | (Inl JSONDecodeError, he') \<Rightarrow> ([ErrorEvent ''Invalid JSON message''], True, he')
           | (Inl _, he') \<Rightarrow> ([], False, disconnect ws he')))"

section \<open>Control surface (api/routes/simulation.py, api/routes/pipeline.py)\<close>

text \<open>The three module-level singletons of the process.\<close>

record services =
  engine_of :: engine
  adapter_of :: adapter
  pipeline_of :: pipeline

definition init_services :: services where
  "init_services = \<lparr>engine_of = init_engine, adapter_of = init_adapter, pipeline_of = init_pipeline\<rparr>"

datatype http_result = Accepted string | HttpError nat string

text \<open>\<open>POST /simulation/start\<close>: hands the request to \<open>simulation_service.start\<close>.\<close>

definition api_simulation_start ::
  "circuit \<Rightarrow> int \<Rightarrow> real \<Rightarrow> string \<Rightarrow> services \<Rightarrow> reply \<times> services" where
  "api_simulation_start c hours speed sim_mode sv =
     (let (r, e, d) = start c hours speed sim_mode (engine_of sv, adapter_of sv)
      in (r, sv\<lparr>engine_of := e, adapter_of := d\<rparr>))"

text \<open>
  \<open>POST /pipeline/simulate\<close>: 409 when \<open>pipeline_service.is_busy\<close>, 500 when
  \<open>start_simulation\<close> raises.
\<close>

definition api_pipeline_simulate ::
  "string \<Rightarrow> int \<Rightarrow> int option \<Rightarrow> services \<Rightarrow> http_result \<times> services" where
  "api_pipeline_simulate new_id start_d end_d sv =
     (if is_busy (pipeline_of sv) then
        (HttpError 409 ''A simulation is already running. Wait for it to finish or cancel it.'', sv)
      else
        case start_simulation new_id start_d end_d (pipeline_of sv) of
          (Inl x, p) \<Rightarrow> (HttpError 500 (exn_str x), sv\<lparr>pipeline_of := p\<rparr>)
        | (Inr tid, p) \<Rightarrow> (Accepted tid, sv\<lparr>pipeline_of := p\<rparr>))"

section \<open>Sample inputs\<close>

definition sample_state :: "real \<Rightarrow> grid_state" where
  "sample_state t =
     \<lparr>timestamp = t, converged = True, total_power_kw = 0, total_power_kvar = 0,
      total_losses_kw = 0, total_generation_kw = 0, total_solar_kw = 0, total_load_kw = 0,
      loads = [], generators = [], voltage_violations = [], overloaded_elements = []\<rparr>"

text \<open>A circuit that compiles, with one load of 100 kW nominal.\<close>

definition loaded_circuit :: circuit where
  "loaded_circuit =
     \<lparr>dss_error_description = [], dss_circuit_name = ''grid'', dss_converged = True,
      dss_total_power = (0, 0), dss_losses = 0,
      dss_loads = [(''L1'', ''B1'', 100, 40, 1)], dss_generators = [],
      dss_voltage_violations = [], dss_overloads = []\<rparr>"

text \<open>The engine after \<open>start(24, 1.0, "synthetic")\<close> on a fresh process.\<close>

definition started_engine :: engine where
  "started_engine =
     fst (snd (start loaded_circuit 24 1 ''synthetic'' (init_engine, init_adapter)))"

text \<open>A network on which every delivery succeeds.\<close>

definition quiet_network :: network where
  "quiet_network = \<lparr>send_fails = (\<lambda>_. False), raw_raises = (\<lambda>_. False)\<rparr>"


text \<open>Websocket 1 connected to a fresh hub and engine.\<close>

definition one_client :: "hub \<times> engine" where
  "one_client = connect 1 (init_hub, init_engine)"

text \<open>What \<open>str.lower\<close> does on ASCII text.\<close>

definition ascii_lower_char :: "char \<Rightarrow> char" where
  "ascii_lower_char c =
     (case map_of (zip ''ABCDEFGHIJKLMNOPQRSTUVWXYZ'' ''abcdefghijklmnopqrstuvwxyz'') c of
        Some l \<Rightarrow> l
      | None \<Rightarrow> c)"

definition ascii_lower :: "string \<Rightarrow> string" where
  "ascii_lower s = map ascii_lower_char s"

text \<open>What \<open>json.loads\<close> returns on five texts; any other text counts as not JSON here.\<close>

definition sample_loads :: "string \<Rightarrow> exn + json" where
  \<open>sample_loads txt =
     (if txt = ''{"action": "Reboot"}'' then Inr (JObj [(''action'', JStr ''Reboot'')])
      else if txt = ''{"action": "PING"}'' then Inr (JObj [(''action'', JStr ''PING'')])
      else if txt = ''{"action": 5}'' then Inr (JObj [(''action'', JNum 5)])
      else if txt = ''{"params": {}}'' then Inr (JObj [(''params'', JObj [])])
      else if txt = ''[1, 2]'' then Inr (JArr [JNum 1, JNum 2])
      else Inl JSONDecodeError)\<close>

text \<open>Branches that answer \<open>ping\<close> with \<open>pong\<close> and anything else with a response.\<close>

definition sample_branch ::
  "string \<Rightarrow> json \<Rightarrow> hub \<times> engine \<Rightarrow> (exn + server_event list) \<times> hub \<times> engine" where
  "sample_branch action params he =
     (Inr (if action = ''ping'' then [Pong] else [Response action]), he)"

text \<open>
  Days on which everything works; the same with an error description left by
  \<open>Compile\<close> on 2025-08-02; and the same with \<open>Compile\<close> raising on 2025-08-02.
\<close>

definition good_days :: day_env where
  "good_days =
     \<lparr>prepare_error = (\<lambda>_. None), compile_raises = (\<lambda>_. None), compile_error = (\<lambda>_. []),
      solve_error = (\<lambda>_. None), solve_converged = (\<lambda>_ _. True)\<rparr>"

definition compile_fails_on_day_2 :: day_env where
  "compile_fails_on_day_2 =
     good_days\<lparr>compile_error := (\<lambda>d. if d = 739465 then ''Redirect file not found'' else [])\<rparr>"

definition compile_raises_on_day_2 :: day_env where
  "compile_raises_on_day_2 =
     good_days\<lparr>compile_raises := (\<lambda>d. if d = 739465 then Some ''Master.dss not found'' else None)\<rparr>"

text \<open>
  A batch over the three days 2025-08-01 to 2025-08-03, just accepted on a fresh
  orchestrator; and a batch for the single day 9999-12-31.
\<close>

definition three_day_batch :: pipeline where
  "three_day_batch = snd (start_simulation ''a1b2c3d4'' 739464 (Some 739466) init_pipeline)"

definition last_day_batch :: pipeline where
  "last_day_batch = snd (start_simulation ''0f9e8d7c'' 3652059 None init_pipeline)"

text \<open>
  The process after a batch was accepted; after the engine was then started as well; and
  an idle process whose grid model is loaded.
\<close>

definition batch_busy_services :: services where
  "batch_busy_services =
     snd (api_pipeline_simulate ''a1b2c3d4'' 739464 (Some 739466) init_services)"

definition both_active_services :: services where
  "both_active_services =
     snd (api_simulation_start loaded_circuit 24 1 ''synthetic'' batch_busy_services)"

definition idle_loaded_services :: services where
  "idle_loaded_services = init_services\<lparr>adapter_of := snd (load_model loaded_circuit init_adapter)\<rparr>"

section \<open>History log\<close>

lemma add_to_history_history:
  "history (add_to_history s e) =
     (if length (history e) + 1 > max_history_length e
      then tl (history e @ [summary_of s]) else history e @ [summary_of s])"
  by (simp add: add_to_history_def Let_def)

lemma add_to_history_max [simp]:
  "max_history_length (add_to_history s e) = max_history_length e"
  by (simp add: add_to_history_def Let_def)

lemma init_engine_capacity: "max_history_length init_engine = 1000 \<and> history init_engine = []"
  by (simp add: init_engine_def)

lemma fold_add_history:
  "length (history e) \<le> max_history_length e \<Longrightarrow>
   history (fold add_to_history ss e) =
     drop (length (history e) + length ss - max_history_length e) (history e @ map summary_of ss)"
proof (induction ss arbitrary: e)
  case Nil
  then show ?case by simp
next
  case (Cons s ss)
  let ?e' = "add_to_history s e"
  let ?cap = "max_history_length e"
  show ?case
  proof (cases "length (history e) < ?cap")
    case True
    then have h: "history ?e' = history e @ [summary_of s]"
      by (simp add: add_to_history_history)
    then have "length (history ?e') \<le> max_history_length ?e'" using True by simp
    from Cons.IH [OF this] show ?thesis using h by simp
  next
    case False
    with Cons.prems have eq: "length (history e) = ?cap" by simp
    then have h: "history ?e' = tl (history e @ [summary_of s])"
      by (simp add: add_to_history_history)
    then have len: "length (history ?e') = ?cap" using eq by simp
    then have le: "length (history ?e') \<le> max_history_length ?e'" by simp
    have t: "tl (history e @ [summary_of s]) @ map summary_of ss =
             tl (history e @ summary_of s # map summary_of ss)"
      by (cases "history e") simp_all
    have "history (fold add_to_history ss ?e') =
          drop (length ss) (tl (history e @ summary_of s # map summary_of ss))"
      using Cons.IH [OF le] len h t by simp
    moreover have "length (history e) + length (s # ss) - ?cap = Suc (length ss)"
      using eq by simp
    ultimately show ?thesis
      by (simp only: fold_simps list.map drop_Suc)
  qed
qed

text \<open>
  Claim C5. Starting from a history within its capacity (it is empty after construction
  and after every \<open>start\<close>, and the capacity is 1000), any sequence of appends leaves
  the history no longer than the capacity; it is exactly the last \<open>capacity\<close> entries
  of everything appended, in append order. In particular, capacity+1 appends to an empty
  history drop the first entry and keep all later ones, the newest last.
\<close>

theorem history_bounded_fifo:
  assumes "length (history e) \<le> max_history_length e"
  shows "length (history (fold add_to_history ss e)) \<le> max_history_length e
       \<and> history (fold add_to_history ss e) =
           drop (length (history e) + length ss - max_history_length e)
             (history e @ map summary_of ss)
       \<and> (history e = [] \<and> 0 < max_history_length e \<and> length ss = max_history_length e + 1
            \<longrightarrow> history (fold add_to_history ss e) = map summary_of (tl ss)
              \<and> last (history (fold add_to_history ss e)) = summary_of (last ss))"
proof -
  let ?h = "history (fold add_to_history ss e)"
  have char: "?h = drop (length (history e) + length ss - max_history_length e)
                     (history e @ map summary_of ss)"
    using assms by (rule fold_add_history)
  have bound: "length ?h \<le> max_history_length e"
    using assms by (simp add: char)
  have evict: "?h = map summary_of (tl ss) \<and> last ?h = summary_of (last ss)"
    if "history e = []" "0 < max_history_length e" "length ss = max_history_length e + 1"
  proof -
    have h1: "?h = map summary_of (tl ss)"
      using that by (simp add: char drop_Suc map_tl)
    have "tl ss \<noteq> []" using that by (cases ss) auto
    then have "last (map summary_of (tl ss)) = summary_of (last ss)"
      by (cases ss) (auto simp: last_map)
    with h1 show ?thesis by simp
  qed
  from char bound evict show ?thesis by blast
qed

theorem history_bounded_fifo_witness:
  "length (history (init_engine\<lparr>max_history_length := 2\<rparr>))
     \<le> max_history_length (init_engine\<lparr>max_history_length := 2\<rparr>)
   \<and> history (init_engine\<lparr>max_history_length := 2\<rparr>) = []
   \<and> length [sample_state 1, sample_state 2, sample_state 3] = 2 + 1
   \<and> history (fold add_to_history [sample_state 1, sample_state 2, sample_state 3]
                (init_engine\<lparr>max_history_length := 2\<rparr>))
       = [summary_of (sample_state 2), summary_of (sample_state 3)]"
  using history_bounded_fifo [of "init_engine\<lparr>max_history_length := 2\<rparr>"
          "[sample_state 1, sample_state 2, sample_state 3]"]
  by (simp add: init_engine_def)

section \<open>Pause and resume\<close>

lemma started_engine_flags: "running started_engine \<and> \<not> paused started_engine"
  by (simp add: started_engine_def start_def load_model_def init_adapter_def init_engine_def
      loaded_circuit_def)

text \<open>
  Claim C6, as stated, fails: \<open>resume\<close> is guarded by \<open>_running\<close> alone, so on an
  engine that is running and not paused it reports success.
\<close>

theorem resume_while_running_counterexample:
  "running started_engine \<and> \<not> paused started_engine
   \<and> is_success (fst (resume started_engine))"
  using started_engine_flags by (simp add: resume_def)

text \<open>
  Claim C6, amended. \<open>resume\<close> succeeds exactly when the engine is running, paused or
  not, and leaves it running and not paused; \<open>pause\<close> succeeds exactly when the engine
  is running, paused or not, and leaves it paused. From Idle both fail with
  ``Simulation not running'' and leave the engine unchanged.
\<close>

theorem resume_guard_is_running:
  "(running e \<longrightarrow> resume e = (Success ''Simulation resumed'', e\<lparr>paused := False\<rparr>))
   \<and> (\<not> running e \<longrightarrow> resume e = (Failure ''Simulation not running'', e))
   \<and> (running e \<longrightarrow> pause e = (Success ''Simulation paused'', e\<lparr>paused := True\<rparr>))
   \<and> (\<not> running e \<longrightarrow> pause e = (Failure ''Simulation not running'', e))"
  by (simp add: resume_def pause_def)

theorem resume_guard_is_running_witness:
  "running started_engine
   \<and> resume started_engine = (Success ''Simulation resumed'', started_engine\<lparr>paused := False\<rparr>)
   \<and> \<not> running init_engine
   \<and> resume init_engine = (Failure ''Simulation not running'', init_engine)
   \<and> pause started_engine = (Success ''Simulation paused'', started_engine\<lparr>paused := True\<rparr>)
   \<and> pause init_engine = (Failure ''Simulation not running'', init_engine)"
  using resume_guard_is_running [of started_engine] resume_guard_is_running [of init_engine]
    started_engine_flags
  by (simp add: init_engine_def)

section \<open>Reading the history\<close>

lemma get_history_positive:
  assumes "0 < limit"
  shows "get_history limit e = drop (length (history e) - nat limit) (history e)"
proof -
  have "nat (max (- limit + int (length (history e))) 0) = length (history e) - nat limit"
    using assms by linarith
  then show ?thesis using assms by (simp add: get_history_def slice_from_def Let_def)
qed

text \<open>
  Claim C7 at limit 0: the slice \<open>self._history[-0:]\<close> is the whole list, so
  \<open>get_history(0)\<close> on a history of two entries returns both, not none.
\<close>

theorem get_history_zero_returns_all:
  "get_history 0 (fold add_to_history [sample_state 1, sample_state 2] init_engine)
     = [summary_of (sample_state 1), summary_of (sample_state 2)]"
  by (simp add: get_history_def slice_from_def add_to_history_def init_engine_def Let_def)

section \<open>Mutual exclusion of engine and orchestrator\<close>

lemma both_active_flags:
  "running (engine_of both_active_services) \<and> model_loaded (adapter_of both_active_services)
   \<and> is_busy (pipeline_of both_active_services)"
  by (simp add: both_active_services_def batch_busy_services_def api_pipeline_simulate_def
      api_simulation_start_def
      init_services_def init_pipeline_def init_engine_def init_adapter_def is_busy_def
      start_simulation_def start_def load_model_def loaded_circuit_def Let_def)

lemma idle_loaded_flags:
  "\<not> running (engine_of idle_loaded_services) \<and> model_loaded (adapter_of idle_loaded_services)
   \<and> \<not> is_busy (pipeline_of idle_loaded_services)"
  by (simp add: idle_loaded_services_def
      init_services_def init_pipeline_def init_engine_def init_adapter_def is_busy_def
      load_model_def loaded_circuit_def Let_def)

text \<open>
  Claim C1, as stated, fails: on a fresh process a batch over three days is accepted, and
  the engine start that follows succeeds although the orchestrator is busy; afterwards
  the engine is running and the orchestrator is busy at the same time.
\<close>

theorem engine_starts_while_batch_busy_counterexample:
  "is_busy (pipeline_of batch_busy_services)
   \<and> is_success (fst (api_simulation_start loaded_circuit 24 1 ''synthetic'' batch_busy_services))
   \<and> running (engine_of (snd (api_simulation_start loaded_circuit 24 1 ''synthetic'' batch_busy_services)))
   \<and> is_busy (pipeline_of (snd (api_simulation_start loaded_circuit 24 1 ''synthetic'' batch_busy_services)))"
  by (simp add: batch_busy_services_def api_pipeline_simulate_def api_simulation_start_def
      init_services_def init_pipeline_def init_engine_def init_adapter_def is_busy_def
      start_simulation_def start_def load_model_def loaded_circuit_def Let_def)

text \<open>
  Claim C1, amended. Each service guards only against itself. With the model loaded,
  starting the engine fails with ``Simulation already running'' exactly when the engine's
  own running flag is set, and succeeds otherwise whatever the orchestrator is doing;
  starting a batch is refused (409 by the route, \<open>RuntimeError\<close> by the service)
  exactly when the orchestrator's own busy flag is set, and is accepted otherwise
  whatever the engine is doing. A refused start changes nothing.
\<close>

theorem each_service_guards_itself:
  "(running (engine_of sv) \<and> model_loaded (adapter_of sv) \<longrightarrow>
      api_simulation_start c hours speed m sv = (Failure ''Simulation already running'', sv))
   \<and> (is_busy (pipeline_of sv) \<longrightarrow>
      api_pipeline_simulate new_id s e sv =
        (HttpError 409 ''A simulation is already running. Wait for it to finish or cancel it.'', sv)
      \<and> start_simulation new_id s e (pipeline_of sv) =
        (Inl (RuntimeError ''A simulation is already running''), pipeline_of sv))
   \<and> (\<not> running (engine_of sv) \<and> model_loaded (adapter_of sv) \<longrightarrow>
      is_success (fst (api_simulation_start c hours speed m sv))
      \<and> running (engine_of (snd (api_simulation_start c hours speed m sv)))
      \<and> pipeline_of (snd (api_simulation_start c hours speed m sv)) = pipeline_of sv)
   \<and> (\<not> is_busy (pipeline_of sv) \<longrightarrow>
      fst (api_pipeline_simulate new_id s e sv) = Accepted new_id
      \<and> is_busy (pipeline_of (snd (api_pipeline_simulate new_id s e sv)))
      \<and> engine_of (snd (api_pipeline_simulate new_id s e sv)) = engine_of sv)"
  by (simp add: api_pipeline_simulate_def api_simulation_start_def is_busy_def
      start_simulation_def start_def Let_def)

theorem each_service_guards_itself_witness:
  "running (engine_of both_active_services) \<and> model_loaded (adapter_of both_active_services)
   \<and> is_busy (pipeline_of both_active_services)
   \<and> api_simulation_start loaded_circuit 24 1 ''synthetic'' both_active_services
       = (Failure ''Simulation already running'', both_active_services)
   \<and> api_pipeline_simulate ''e5f6a7b8'' 5 None both_active_services
       = (HttpError 409 ''A simulation is already running. Wait for it to finish or cancel it.'',
          both_active_services)
   \<and> \<not> running (engine_of idle_loaded_services) \<and> model_loaded (adapter_of idle_loaded_services)
   \<and> \<not> is_busy (pipeline_of idle_loaded_services)
   \<and> is_success (fst (api_simulation_start loaded_circuit 24 1 ''synthetic'' idle_loaded_services))
   \<and> fst (api_pipeline_simulate ''e5f6a7b8'' 5 None idle_loaded_services) = Accepted ''e5f6a7b8''"
  using each_service_guards_itself [of both_active_services loaded_circuit 24 1 "''synthetic''"
          "''e5f6a7b8''" 5 None]
    each_service_guards_itself [of idle_loaded_services loaded_circuit 24 1 "''synthetic''"
          "''e5f6a7b8''" 5 None]
    both_active_flags idle_loaded_flags
  by simp

section \<open>Running a batch task\<close>

lemma run_task_Suc_Suc:
  "run_task env a (Suc (Suc k)) p = run_task env a k (resume_task env a (resume_task env a p))"
  by simp

lemma resume_await_day:
  assumes "objects p a = Some t" "coroutines p a = Some (AwaitDay cur n de)" "cur < max_ordinal"
  shows "resume_task env a p =
     p\<lparr>objects := (objects p)(a \<mapsto> t\<lparr>completed_days := completed_days t @ [run_one_day env cur]\<rparr>),
       coroutines := (coroutines p)(a \<mapsto> AwaitSleep (cur + 1) n de)\<rparr>"
  using assms by (simp add: resume_task_def add_one_day_def Let_def)

text \<open>A day that is not the last: its record is appended and the next day is begun.\<close>

lemma day_sleep_continue:
  assumes "objects p a = Some t" "coroutines p a = Some (AwaitDay cur n de)"
    "status t \<noteq> ''cancelled''" "cur < de" "de < max_ordinal"
  shows "objects (resume_task env a (resume_task env a p)) a =
           Some (t\<lparr>completed_days := completed_days t @ [run_one_day env cur],
                   current_day := n + 1, current_date := Some (cur + 1)\<rparr>)
       \<and> coroutines (resume_task env a (resume_task env a p)) a = Some (AwaitDay (cur + 1) (n + 1) de)"
proof -
  have "cur < max_ordinal" using assms(4,5) by simp
  from resume_await_day [OF assms(1,2) this, of env] show ?thesis
    using assms(3,4) by (simp add: resume_task_def loop_head_def)
qed

text \<open>The last day: its record is appended and the task is marked completed.\<close>

lemma day_sleep_finish:
  assumes "objects p a = Some t" "coroutines p a = Some (AwaitDay cur n de)" "cur = de"
    "de < max_ordinal"
  shows "objects (resume_task env a (resume_task env a p)) a =
           Some (t\<lparr>completed_days := completed_days t @ [run_one_day env cur],
                   status := ''completed''\<rparr>)
       \<and> coroutines (resume_task env a (resume_task env a p)) a = Some Finished
       \<and> running_task_id (resume_task env a (resume_task env a p)) = None"
proof -
  have "cur < max_ordinal" using assms(3,4) by simp
  from resume_await_day [OF assms(1,2) this, of env] show ?thesis
    using assms(3) by (simp add: resume_task_def loop_head_def finish_task_def)
qed

lemma await_day_run:
  assumes "objects p a = Some t" "coroutines p a = Some (AwaitDay cur n de)"
    "status t \<noteq> ''cancelled''" "cur \<le> de" "de < max_ordinal"
  shows "\<exists>t'. objects (run_task env a (2 * nat (de - cur + 1)) p) a = Some t'
            \<and> coroutines (run_task env a (2 * nat (de - cur + 1)) p) a = Some Finished
            \<and> running_task_id (run_task env a (2 * nat (de - cur + 1)) p) = None
            \<and> status t' = ''completed''
            \<and> error t' = error t
            \<and> completed_days t' = completed_days t @ map (run_one_day env) [cur..de]"
  using assms
proof (induction "nat (de - cur)" arbitrary: p t cur n)
  case 0
  then have eq: "cur = de" by simp
  have fuel: "2 * nat (de - cur + 1) = Suc (Suc 0)" using eq by simp
  show ?case
    unfolding fuel run_task_Suc_Suc
    using day_sleep_finish [OF "0.prems"(1,2) eq "0.prems"(5), of env] eq by simp
next
  case (Suc m)
  then have lt: "cur < de" by simp
  have fuel: "2 * nat (de - cur + 1) = Suc (Suc (2 * nat (de - (cur + 1) + 1)))"
    using lt by simp
  let ?p = "resume_task env a (resume_task env a p)"
  let ?t = "t\<lparr>completed_days := completed_days t @ [run_one_day env cur],
                current_day := n + 1, current_date := Some (cur + 1)\<rparr>"
  from day_sleep_continue [OF Suc.prems(1,2,3) lt Suc.prems(5), of env]
  have o: "objects ?p a = Some ?t" and c: "coroutines ?p a = Some (AwaitDay (cur + 1) (n + 1) de)"
    by simp_all
  have m: "m = nat (de - (cur + 1))" using Suc.hyps(2) by simp
  have st: "status ?t \<noteq> ''cancelled''" using Suc.prems(3) by simp
  have le: "cur + 1 \<le> de" using lt by simp
  from Suc.hyps(1) [OF m o c st le Suc.prems(5)]
  obtain t' where t': "objects (run_task env a (2 * nat (de - (cur + 1) + 1)) ?p) a = Some t'"
    "coroutines (run_task env a (2 * nat (de - (cur + 1) + 1)) ?p) a = Some Finished"
    "running_task_id (run_task env a (2 * nat (de - (cur + 1) + 1)) ?p) = None"
    "status t' = ''completed''" "error t' = error ?t"
    "completed_days t' = completed_days ?t @ map (run_one_day env) [cur + 1..de]"
    by blast
  have up: "[cur..de] = cur # [cur + 1..de]" using lt by (simp add: upto_rec1)
  show ?case
    unfolding fuel run_task_Suc_Suc
    using t' up by simp
qed

lemma fresh_task_run:
  assumes "objects p a = Some t" "coroutines p a = Some NotStarted" "end_date t < max_ordinal"
  shows "\<exists>t'. objects (run_task env a (2 * nat (end_date t - start_date t + 1) + 1) p) a = Some t'
            \<and> coroutines (run_task env a (2 * nat (end_date t - start_date t + 1) + 1) p) a
                = Some Finished
            \<and> running_task_id (run_task env a (2 * nat (end_date t - start_date t + 1) + 1) p) = None
            \<and> status t' = ''completed''
            \<and> error t' = error t
            \<and> completed_days t' =
                completed_days t @ map (run_one_day env) [start_date t..end_date t]"
proof (cases "start_date t \<le> end_date t")
  case True
  let ?p = "resume_task env a p"
  let ?t = "t\<lparr>status := ''running'', current_day := 1, current_date := Some (start_date t)\<rparr>"
  have o: "objects ?p a = Some ?t"
    and c: "coroutines ?p a = Some (AwaitDay (start_date t) 1 (end_date t))"
    using assms True by (simp_all add: resume_task_def loop_head_def)
  have st: "status ?t \<noteq> ''cancelled''" by simp
  from await_day_run [OF o c st True assms(3), of env] show ?thesis by simp
next
  case False
  then have fuel: "2 * nat (end_date t - start_date t + 1) + 1 = Suc 0" by simp
  show ?thesis
    unfolding fuel using assms False
    by (simp add: resume_task_def loop_head_def finish_task_def)
qed

lemma three_day_batch_task:
  "tasks three_day_batch ''a1b2c3d4'' = Some 0
   \<and> objects three_day_batch 0 =
       Some \<lparr>task_id = ''a1b2c3d4'', status = ''pending'', mode = ''range'',
             start_date = 739464, end_date = 739466, total_days = 3, current_day = 0,
             current_date = None, completed_days = [], error = None\<rparr>
   \<and> coroutines three_day_batch 0 = Some NotStarted
   \<and> running_task_id three_day_batch = Some ''a1b2c3d4''"
  by (simp add: three_day_batch_def start_simulation_def init_pipeline_def is_busy_def Let_def)

lemma good_day: "run_one_day good_days d = DaySuccess d 96 96"
  by (simp add: run_one_day_def sync_work_def prepare_date_def run_simulation_def
      summarize_day_def good_days_def comp_def)

lemma run_one_day_compile_error:
  "prepare_error env d = None \<Longrightarrow> compile_raises env d = None \<Longrightarrow> compile_error env d \<noteq> [] \<Longrightarrow>
   run_one_day env d = DayError d (''DSS compile error: '' @ compile_error env d)"
  by (simp add: run_one_day_def sync_work_def prepare_date_def run_simulation_def)

lemma run_one_day_compile_raises:
  "prepare_error env d = None \<Longrightarrow> compile_raises env d = Some m \<Longrightarrow>
   run_one_day env d = DayError d m"
  by (simp add: run_one_day_def sync_work_def prepare_date_def run_simulation_def)

text \<open>The three-day batch after its first resumption: running, 2025-08-01 in flight.\<close>

lemma three_day_run1:
  "objects (run_task good_days 0 1 three_day_batch) 0 =
       Some \<lparr>task_id = ''a1b2c3d4'', status = ''running'', mode = ''range'',
             start_date = 739464, end_date = 739466, total_days = 3, current_day = 1,
             current_date = Some 739464, completed_days = [], error = None\<rparr>
   \<and> coroutines (run_task good_days 0 1 three_day_batch) 0 = Some (AwaitDay 739464 1 739466)
   \<and> tasks (run_task good_days 0 1 three_day_batch) ''a1b2c3d4'' = Some 0
   \<and> running_task_id (run_task good_days 0 1 three_day_batch) = Some ''a1b2c3d4''"
  using three_day_batch_task
  by (simp add: resume_task_def loop_head_def)

text \<open>After the second: 2025-08-01 recorded, the execution sleeps before 2025-08-02.\<close>

lemma three_day_run2:
  "objects (run_task good_days 0 2 three_day_batch) 0 =
       Some \<lparr>task_id = ''a1b2c3d4'', status = ''running'', mode = ''range'',
             start_date = 739464, end_date = 739466, total_days = 3, current_day = 1,
             current_date = Some 739464, completed_days = [DaySuccess 739464 96 96],
             error = None\<rparr>
   \<and> coroutines (run_task good_days 0 2 three_day_batch) 0 = Some (AwaitSleep 739465 1 739466)
   \<and> tasks (run_task good_days 0 2 three_day_batch) ''a1b2c3d4'' = Some 0
   \<and> running_task_id (run_task good_days 0 2 three_day_batch) = Some ''a1b2c3d4''"
  using three_day_batch_task
  by (simp add: numeral_2_eq_2 resume_task_def loop_head_def good_day add_one_day_def
      max_ordinal_def)

text \<open>
  A batch for the single day 9999-12-31: the day is run and recorded, then advancing
  \<open>current\<close> raises \<open>OverflowError\<close> and the task ends with status \<open>error\<close>.
\<close>

lemma batch_ending_on_last_date_ends_in_error:
  "map_option (\<lambda>t. (status t, error t, completed_days t))
     (get_task ''0f9e8d7c'' (run_task good_days 0 2 last_day_batch))
   = Some (''error'', Some ''date value out of range'', [DaySuccess 3652059 96 96])"
  by (simp add: numeral_2_eq_2 last_day_batch_def start_simulation_def init_pipeline_def
      is_busy_def get_task_def resume_task_def loop_head_def fail_task_def good_day
      add_one_day_def max_ordinal_def Let_def)

section \<open>Cancellation\<close>

text \<open>
  Whenever the background execution returns, the status it leaves is \<open>completed\<close> or
  \<open>error\<close>, never \<open>cancelled\<close>: the \<open>break\<close> taken on a cancelled task leads to
  the same assignment as the normal end of the loop.
\<close>

lemma returned_is_completed_or_error:
  assumes "coroutines p a \<noteq> Some Finished"
    and "coroutines (resume_task env a p) a = Some Finished"
  shows "map_option status (objects (resume_task env a p) a) = Some ''completed''
       \<or> map_option status (objects (resume_task env a p) a) = Some ''error''"
  using assms
  by (auto simp: resume_task_def loop_head_def finish_task_def fail_task_def Let_def
      split: option.splits pc.splits if_splits sum.splits)

text \<open>
  Claim C2 on a three-day batch cancelled between 2025-08-01 and 2025-08-02:
  \<open>cancel_task\<close> returns \<open>True\<close> and the status is \<open>cancelled\<close>; when the
  background execution resumes it sees the cancellation, leaves the loop and sets the
  status to \<open>completed\<close>. The result list holds the first day only.
\<close>

theorem cancelled_task_becomes_completed:
  "fst (cancel_task ''a1b2c3d4'' (run_task good_days 0 2 three_day_batch)) = True
   \<and> map_option status
        (get_task ''a1b2c3d4'' (snd (cancel_task ''a1b2c3d4'' (run_task good_days 0 2 three_day_batch))))
       = Some ''cancelled''
   \<and> map_option status
        (get_task ''a1b2c3d4''
          (resume_task good_days 0
            (snd (cancel_task ''a1b2c3d4'' (run_task good_days 0 2 three_day_batch)))))
       = Some ''completed''
   \<and> map_option completed_days
        (get_task ''a1b2c3d4''
          (resume_task good_days 0
            (snd (cancel_task ''a1b2c3d4'' (run_task good_days 0 2 three_day_batch)))))
       = Some [DaySuccess 739464 96 96]"
  using three_day_run2
  by (simp add: cancel_task_def get_task_def resume_task_def loop_head_def finish_task_def)

text \<open>
  The same batch cancelled while 2025-08-01 is in flight: the day's record is still
  appended after the cancel, then the execution leaves the loop, again with status
  \<open>completed\<close>.
\<close>

lemma cancel_during_day_still_records_it:
  "map_option (\<lambda>t. (status t, completed_days t))
     (get_task ''a1b2c3d4''
       (run_task good_days 0 2
         (snd (cancel_task ''a1b2c3d4'' (run_task good_days 0 1 three_day_batch)))))
   = Some (''completed'', [DaySuccess 739464 96 96])"
  using three_day_run1
  by (simp add: numeral_2_eq_2 cancel_task_def get_task_def resume_task_def loop_head_def
      finish_task_def good_day add_one_day_def max_ordinal_def)

text \<open>
  Claim C10. A successful cancel of a running task clears the busy flag at once and
  leaves every background execution where it was (the cancelled one is still suspended
  in its day or its sleep); a batch start issued right after is accepted.
\<close>

theorem cancel_clears_busy:
  assumes "tasks p tid = Some a" "objects p a = Some t" "status t = ''running''"
  shows "fst (cancel_task tid p) = True
       \<and> \<not> is_busy (snd (cancel_task tid p))
       \<and> coroutines (snd (cancel_task tid p)) = coroutines p
       \<and> fst (start_simulation new_id s e (snd (cancel_task tid p))) = Inr new_id"
  using assms by (simp add: cancel_task_def is_busy_def start_simulation_def Let_def)

theorem cancel_clears_busy_witness:
  "is_busy (run_task good_days 0 1 three_day_batch)
   \<and> fst (cancel_task ''a1b2c3d4'' (run_task good_days 0 1 three_day_batch)) = True
   \<and> \<not> is_busy (snd (cancel_task ''a1b2c3d4'' (run_task good_days 0 1 three_day_batch)))
   \<and> coroutines (snd (cancel_task ''a1b2c3d4'' (run_task good_days 0 1 three_day_batch))) 0
       = Some (AwaitDay 739464 1 739466)
   \<and> fst (start_simulation ''e5f6a7b8'' 739470 None
            (snd (cancel_task ''a1b2c3d4'' (run_task good_days 0 1 three_day_batch))))
       = Inr ''e5f6a7b8''"
  using cancel_clears_busy [of "run_task good_days 0 1 three_day_batch" "''a1b2c3d4''" 0
          "\<lparr>task_id = ''a1b2c3d4'', status = ''running'', mode = ''range'',
             start_date = 739464, end_date = 739466, total_days = 3, current_day = 1,
             current_date = Some 739464, completed_days = [], error = None\<rparr>"
          "''e5f6a7b8''" 739470 None]
    three_day_run1
  by (simp add: is_busy_def)

section \<open>Failures inside a day\<close>

text \<open>
  Claim C3, as stated, fails: in the batch over 2025-08-01 to 2025-08-03 whose model does
  not compile on 2025-08-02, the first and the third day are both executed, the second
  yields an error record, and the task ends with status \<open>completed\<close> and no error
  message.
\<close>

theorem compile_failure_does_not_abort_counterexample:
  "map_option (\<lambda>t. (status t, error t, completed_days t))
     (get_task ''a1b2c3d4'' (run_task compile_fails_on_day_2 0 7 three_day_batch))
   = Some (''completed'', None,
           [DaySuccess 739464 96 96,
            DayError 739465 ''DSS compile error: Redirect file not found'',
            DaySuccess 739466 96 96])"
  using three_day_batch_task
  by (simp add: eval_nat_numeral resume_task_def loop_head_def finish_task_def get_task_def
      run_one_day_def sync_work_def prepare_date_def run_simulation_def
      summarize_day_def good_days_def compile_fails_on_day_2_def comp_def
      add_one_day_def max_ordinal_def)

text \<open>
  Claim C3, amended. A batch task that is not cancelled and whose range ends before
  9999-12-31 executes every day of its range in date order, whatever happened on the days
  before, and ends with status \<open>completed\<close> and its error field untouched; its
  background execution returns after two resumptions per day and one more. Every
  exception inside a day yields that day's error record carrying the exception's
  message, an adapter compile failure included: when \<open>Compile\<close> returns and leaves an
  error description the message is ``DSS compile error: '' followed by the description,
  and when the compile commands raise by themselves it is the message they raise with.
\<close>

theorem every_day_runs:
  "(objects p a = Some t \<and> coroutines p a = Some NotStarted \<and> end_date t < max_ordinal \<longrightarrow>
      (\<exists>t'. objects (run_task env a (2 * nat (end_date t - start_date t + 1) + 1) p) a = Some t'
          \<and> coroutines (run_task env a (2 * nat (end_date t - start_date t + 1) + 1) p) a
               = Some Finished
          \<and> status t' = ''completed''
          \<and> error t' = error t
          \<and> completed_days t' =
               completed_days t @ map (run_one_day env) [start_date t..end_date t]))
   \<and> (prepare_error env d = None \<and> compile_raises env d = None \<and> compile_error env d \<noteq> [] \<longrightarrow>
        run_one_day env d = DayError d (''DSS compile error: '' @ compile_error env d))
   \<and> (prepare_error env d = None \<and> compile_raises env d = Some m \<longrightarrow>
        run_one_day env d = DayError d m)
   \<and> (\<forall>x. sync_work env d = Inl x \<longrightarrow> run_one_day env d = DayError d (exn_str x))"
proof -
  have "\<exists>t'. objects (run_task env a (2 * nat (end_date t - start_date t + 1) + 1) p) a = Some t'
          \<and> coroutines (run_task env a (2 * nat (end_date t - start_date t + 1) + 1) p) a
               = Some Finished
          \<and> status t' = ''completed''
          \<and> error t' = error t
          \<and> completed_days t' =
               completed_days t @ map (run_one_day env) [start_date t..end_date t]"
    if "objects p a = Some t" "coroutines p a = Some NotStarted" "end_date t < max_ordinal"
    using fresh_task_run [OF that, of env] by blast
  moreover have "\<forall>x. sync_work env d = Inl x \<longrightarrow> run_one_day env d = DayError d (exn_str x)"
    by (simp add: run_one_day_def)
  ultimately show ?thesis
    using run_one_day_compile_error [of env d] run_one_day_compile_raises [of env d m] by blast
qed

theorem every_day_runs_witness:
  "objects three_day_batch 0 \<noteq> None \<and> coroutines three_day_batch 0 = Some NotStarted
   \<and> (739466 :: int) < max_ordinal
   \<and> prepare_error compile_fails_on_day_2 739465 = None
   \<and> compile_raises compile_fails_on_day_2 739465 = None
   \<and> compile_error compile_fails_on_day_2 739465 \<noteq> []
   \<and> (\<exists>t'. objects (run_task compile_fails_on_day_2 0 7 three_day_batch) 0 = Some t'
         \<and> status t' = ''completed''
         \<and> completed_days t' = map (run_one_day compile_fails_on_day_2) [739464, 739465, 739466])
   \<and> run_one_day compile_fails_on_day_2 739465
        = DayError 739465 ''DSS compile error: Redirect file not found''
   \<and> prepare_error compile_raises_on_day_2 739465 = None
   \<and> compile_raises compile_raises_on_day_2 739465 = Some ''Master.dss not found''
   \<and> sync_work compile_raises_on_day_2 739465 = Inl (OtherException ''Master.dss not found'')
   \<and> run_one_day compile_raises_on_day_2 739465 = DayError 739465 ''Master.dss not found''"
proof -
  let ?t = "\<lparr>task_id = ''a1b2c3d4'', status = ''pending'', mode = ''range'',
             start_date = 739464, end_date = 739466, total_days = 3, current_day = 0,
             current_date = None, completed_days = [], error = None\<rparr>"
  have h1: "objects three_day_batch 0 = Some ?t \<and> coroutines three_day_batch 0 = Some NotStarted
            \<and> end_date ?t < max_ordinal"
    using three_day_batch_task by (simp add: max_ordinal_def)
  have h2: "prepare_error compile_fails_on_day_2 739465 = None
            \<and> compile_raises compile_fails_on_day_2 739465 = None
            \<and> compile_error compile_fails_on_day_2 739465 \<noteq> []"
    by (simp add: compile_fails_on_day_2_def good_days_def)
  have h3: "prepare_error compile_raises_on_day_2 739465 = None
            \<and> compile_raises compile_raises_on_day_2 739465 = Some ''Master.dss not found''"
    by (simp add: compile_raises_on_day_2_def good_days_def)
  have h4: "sync_work compile_raises_on_day_2 739465 = Inl (OtherException ''Master.dss not found'')"
    by (simp add: sync_work_def prepare_date_def run_simulation_def compile_raises_on_day_2_def
        good_days_def)
  have fuel: "2 * nat (end_date ?t - start_date ?t + 1) + 1 = 7" by simp
  have days: "[start_date ?t..end_date ?t] = [739464, 739465, 739466]" by (simp add: upto.simps)
  have msg: "''DSS compile error: '' @ compile_error compile_fails_on_day_2 739465
             = ''DSS compile error: Redirect file not found''"
    by (simp add: compile_fails_on_day_2_def)
  from every_day_runs [of three_day_batch 0 ?t compile_fails_on_day_2 739465] h1 h2
  have a: "(\<exists>t'. objects (run_task compile_fails_on_day_2 0
                  (2 * nat (end_date ?t - start_date ?t + 1) + 1) three_day_batch) 0 = Some t'
          \<and> status t' = ''completed''
          \<and> completed_days t' =
               completed_days ?t @ map (run_one_day compile_fails_on_day_2) [start_date ?t..end_date ?t])
       \<and> run_one_day compile_fails_on_day_2 739465
           = DayError 739465 (''DSS compile error: '' @ compile_error compile_fails_on_day_2 739465)"
    by blast
  from every_day_runs [of p a t compile_raises_on_day_2 739465 "''Master.dss not found''"] h3 h4
  have b: "run_one_day compile_raises_on_day_2 739465 = DayError 739465 ''Master.dss not found''"
    by blast
  from a show ?thesis unfolding fuel days msg using h1 h2 h3 h4 b by auto
qed

section \<open>Snapshot totals\<close>

lemma get_grid_state_total:
  "get_grid_state c d = Inr st \<Longrightarrow>
   total_load_kw st = py_sum (map kw (dict_values (loads st))) * current_load_mult d"
  by (auto simp: get_grid_state_def Let_def split: if_splits)

lemma read_current_state_total:
  "read_current_state c d = Inr st \<Longrightarrow>
   total_load_kw st = py_sum (map kw (dict_values (loads st)))"
  by (auto simp: read_current_state_def Let_def split: if_splits)

lemma real_data_turn_total:
  "current_state (fst (real_data_turn c net (e, d))) = Some st \<Longrightarrow>
   total_load_kw st = py_sum (map kw (dict_values (loads st)))"
  by (auto simp: real_data_turn_def Let_def add_to_history_def broadcast_state_def)

text \<open>
  Claim C4 on the synthetic stepping path: one \<open>step\<close> on a fresh engine, with a circuit
  of a single load of 100 kW nominal and no jitter. At hour 0 the load multiplier is 0.5;
  the snapshot's only load entry has \<open>kw\<close> 50 and its \<open>total_load_kw\<close> is 25.
\<close>

theorem step_total_load_scaled_twice:
  "map_option (\<lambda>st. (map kw (dict_values (loads st)), total_load_kw st))
     (current_state (fst (snd (step loaded_circuit 0 quiet_network (init_engine, init_adapter)))))
   = Some ([50], 25)"
  by (simp add: step_def load_model_def loaded_circuit_def init_adapter_def init_engine_def
      set_load_multiplier_def get_grid_state_def get_all_loads_def get_load_profile_def
      hour_of_day_def py_sum_def dict_values_def add_to_history_def broadcast_state_def Let_def)

section \<open>Removal of observers on failed delivery\<close>

lemma one_client_state:
  "active_connections (fst one_client) = [1] \<and> callbacks (fst one_client) 1 = Some (HubCallback 1)
   \<and> subscribers (snd one_client) = [HubCallback 1]"
  by (simp add: one_client_def connect_def init_hub_def init_engine_def set_add_def subscribe_def
      Let_def)





section \<open>Bad messages on the duplex channel\<close>

text \<open>
  Claim C9, as stated, fails. A message whose \<open>action\<close> is the number 5 gets no reply
  at all: the \<open>AttributeError\<close> leaves the handler and the endpoint, and the
  connection is unregistered. \<open>PING\<close>, which is not one of the listed actions, is
  answered with \<open>pong\<close>, not with an error event. And a binary frame, which is no
  JSON message either, gets no reply and the connection is unregistered.
\<close>

theorem bad_action_counterexample:
  \<open>endpoint_turn ascii_lower sample_loads sample_branch 1 (TextFrame ''{"action": 5}'') one_client
     = ([], False, disconnect 1 one_client)
   \<and> 1 \<in> set (active_connections (fst one_client))
   \<and> 1 \<notin> set (active_connections (fst (disconnect 1 one_client)))
   \<and> ''PING'' \<notin> set known_actions
   \<and> endpoint_turn ascii_lower sample_loads sample_branch 1 (TextFrame ''{"action": "PING"}'')
       one_client
     = ([Pong], True, one_client)
   \<and> endpoint_turn ascii_lower sample_loads sample_branch 1 BinaryFrame one_client
     = ([], False, disconnect 1 one_client)\<close>
  using one_client_state
  by (simp add: endpoint_turn_def receive_json_def sample_loads_def handle_client_message_def
      read_action_def obj_get_def disconnect_def split_def set_discard_def known_actions_def
      ascii_lower_def ascii_lower_char_def sample_branch_def)

text \<open>
  Any failure of \<open>receive_json\<close> other than \<open>JSONDecodeError\<close> ends the endpoint
  without a reply.
\<close>

lemma other_receive_failure_disconnects:
  "receive_json json_loads f = Inl x \<Longrightarrow> x \<noteq> JSONDecodeError \<Longrightarrow>
   endpoint_turn str_lower json_loads branch ws f he = ([], False, disconnect ws he)"
  by (cases x) (simp_all add: endpoint_turn_def)

text \<open>
  Claim C9, amended. A text frame on which the JSON decoder raises \<open>JSONDecodeError\<close>
  is answered with the event ``Invalid JSON message''. A text frame that decodes to a
  JSON object whose \<open>action\<close> is a string which, lower-cased by \<open>str.lower\<close>, is none
  of the known actions is answered with the event ``Unknown action: '' followed by the
  lower-cased action; an object without \<open>action\<close> is answered with ``Unknown
  action: '' (the empty string lower-cased being the empty string). In all three cases
  the loop goes on and hub and engine, hence the registration of the connection, are
  unchanged.
\<close>

theorem unknown_action_and_malformed:
  "(json_loads txt = Inl JSONDecodeError \<longrightarrow>
      endpoint_turn str_lower json_loads branch ws (TextFrame txt) he
        = ([ErrorEvent ''Invalid JSON message''], True, he))
   \<and> (json_loads txt = Inr (JObj kvs) \<and> obj_get kvs ''action'' = Some (JStr a)
        \<and> str_lower a \<notin> set known_actions \<longrightarrow>
        endpoint_turn str_lower json_loads branch ws (TextFrame txt) he
          = ([ErrorEvent (''Unknown action: '' @ str_lower a)], True, he))
   \<and> (json_loads txt = Inr (JObj kvs) \<and> obj_get kvs ''action'' = None \<and> str_lower [] = [] \<longrightarrow>
        endpoint_turn str_lower json_loads branch ws (TextFrame txt) he
          = ([ErrorEvent ''Unknown action: ''], True, he))"
  by (simp add: endpoint_turn_def receive_json_def handle_client_message_def read_action_def
      known_actions_def)

theorem unknown_action_and_malformed_witness:
  \<open>sample_loads ''{"action": '' = Inl JSONDecodeError
   \<and> endpoint_turn ascii_lower sample_loads sample_branch 1 (TextFrame ''{"action": '') one_client
       = ([ErrorEvent ''Invalid JSON message''], True, one_client)
   \<and> sample_loads ''{"action": "Reboot"}'' = Inr (JObj [(''action'', JStr ''Reboot'')])
   \<and> obj_get [(''action'', JStr ''Reboot'')] ''action'' = Some (JStr ''Reboot'')
   \<and> ascii_lower ''Reboot'' \<notin> set known_actions
   \<and> endpoint_turn ascii_lower sample_loads sample_branch 1 (TextFrame ''{"action": "Reboot"}'')
       one_client
       = ([ErrorEvent ''Unknown action: reboot''], True, one_client)
   \<and> sample_loads ''{"params": {}}'' = Inr (JObj [(''params'', JObj [])])
   \<and> obj_get [(''params'', JObj [])] ''action'' = None
   \<and> ascii_lower [] = []
   \<and> endpoint_turn ascii_lower sample_loads sample_branch 1 (TextFrame ''{"params": {}}'')
       one_client
       = ([ErrorEvent ''Unknown action: ''], True, one_client)\<close>
  using unknown_action_and_malformed [of sample_loads \<open>''{"action": ''\<close> ascii_lower sample_branch
          1 one_client]
    unknown_action_and_malformed [of sample_loads \<open>''{"action": "Reboot"}''\<close> ascii_lower
          sample_branch 1 one_client "[(''action'', JStr ''Reboot'')]" "''Reboot''"]
    unknown_action_and_malformed [of sample_loads \<open>''{"params": {}}''\<close> ascii_lower
          sample_branch 1 one_client "[(''params'', JObj [])]" "[]"]
  by (simp add: sample_loads_def obj_get_def ascii_lower_def ascii_lower_char_def
      known_actions_def)

end
